theory Spec2Isabelle
  imports Complex_Main
begin

section \<open>Values, errors, completions\<close>

text \<open>
  The Viewer of \<^verbatim>\<open>src/index.ts\<close> is a class over the DOM, three.js and the point-cloud
  library. Its methods are embedded as functions on one state record that holds the fields
  of the class together with the part of the host (DOM tree, listener lists, frame
  scheduler) and of the libraries (materials of the loaded point clouds) that the methods
  read or write. Every method returns a completion (the value returned, or the exception
  thrown) and the state reached; a statement after a throwing one is not executed, and what
  was written before the throw stays written.
\<close>

type_synonym node = nat
type_synonym pco = nat

datatype js_value = Undefined | Num real | Str string | Obj pco

datatype js_error = TypeError | NotFoundError | HierarchyRequestError | LoadFailure string

datatype completion = Return js_value | Throw js_error

datatype 'a settlement = Fulfilled 'a | Rejected js_error

section \<open>The point-cloud library's objects\<close>

text \<open>
  \<^verbatim>\<open>PointShape\<close> and \<^verbatim>\<open>PointColorType\<close> are enums of the library; of the colour
  types the Viewer names two, the others are kept by their number.
\<close>

datatype PointShape = SQUARE | CIRCLE | PARABOLOID

datatype PointColorType = RGB | RGB_HEIGHT | OtherColorType nat

record PointCloudMaterial =
  pointColorType :: PointColorType
  shape :: PointShape
  opacity :: js_value
  size' :: js_value

record OrbitControls =
  enableDamping :: bool
  dampingFactor :: real
  screenSpacePanning :: bool
  minDistance :: real
  maxDistance :: real
  maxPolarAngle :: real

section \<open>The host: event targets, callbacks, the calls made on collaborators\<close>

datatype event_target = Window | Element node

text \<open>The arrow-function properties of the Viewer are registered as callbacks by reference.\<close>

datatype callback =
    Cb_loop
  | Cb_resize
  | Cb_configPointsShape
  | Cb_changeLayer
  | Cb_changePointsOpacity
  | Cb_changePointsSize
  | Cb_foreign nat

text \<open>
  The calls the Viewer makes on the scheduler, the controls, the camera, the renderer and
  the point-cloud manager, and the entries into its own \<^verbatim>\<open>update\<close> and \<^verbatim>\<open>render\<close>,
  are recorded in program order. Timestamps are of an arbitrary type \<open>'t\<close> with a
  subtraction; \<^verbatim>\<open>camera.aspect = width / height\<close> is recorded by its two operands.
\<close>

datatype 't call =
    Window_requestAnimationFrame nat
  | Window_cancelAnimationFrame nat
  | Controls_update
  | Viewer_update 't
  | Potree_updatePointClouds "pco list"
  | Viewer_render
  | Renderer_clear
  | Renderer_render "pco list"
  | Camera_aspect real real
  | Camera_updateProjectionMatrix
  | Renderer_setSize real real
  | Potree_loadPointCloud string string

record 't state =
  \<comment> \<open>fields of class Viewer\<close>
  targetEl :: "node option"
  domElement :: node
  scene :: "pco list"
  orbitControls :: "OrbitControls option"
  pointClouds :: "pco list"
  prevTime :: "'t option"
  reqAnimationFrameHandle :: "nat option"
  \<comment> \<open>\<^verbatim>\<open>p.material\<close> of every point-cloud handle\<close>
  material :: "pco \<Rightarrow> PointCloudMaterial"
  \<comment> \<open>the DOM\<close>
  parentNode :: "node \<Rightarrow> node option"
  querySelector :: "node \<Rightarrow> string \<Rightarrow> node option"
  clientRect :: "node \<Rightarrow> real \<times> real"
  nodeCounter :: nat
  listeners :: "(event_target \<times> string \<times> callback) list"
  \<comment> \<open>the frame scheduler\<close>
  frames :: "(nat \<times> callback) list"
  frameCounter :: nat
  \<comment> \<open>calls made so far\<close>
  calls :: "'t call list"

section \<open>Sequencing\<close>

definition andThen ::
  "completion \<times> 's \<Rightarrow> ('s \<Rightarrow> completion \<times> 's) \<Rightarrow> completion \<times> 's" where
  "andThen r f = (case r of (Return v, s) \<Rightarrow> f s | (Throw e, s) \<Rightarrow> (Throw e, s))"

definition called :: "'t call \<Rightarrow> 't state \<Rightarrow> 't state" where
  "called c s = s\<lparr>calls := calls s @ [c]\<rparr>"

section \<open>DOM and scheduler primitives\<close>

text \<open>
  The DOM is kept as the parent of every node. The canvas of the renderer has no
  descendants, so \<^verbatim>\<open>parent.appendChild(canvas)\<close> throws HierarchyRequestError only when
  parent is the canvas itself; \<^verbatim>\<open>parent.removeChild(child)\<close> throws NotFoundError unless
  child is a child of parent; \<^verbatim>\<open>el.cloneNode(true)\<close> yields a fresh node, which has no
  parent and no listeners; \<^verbatim>\<open>parent.replaceChild(new, old)\<close> puts new in the place of
  old, which is left without parent.
\<close>

definition appendChild :: "node \<Rightarrow> node \<Rightarrow> 't state \<Rightarrow> completion \<times> 't state" where
  "appendChild parent child s =
     (if parent = child then (Throw HierarchyRequestError, s)
      else (Return (Obj child), s\<lparr>parentNode := (parentNode s)(child := Some parent)\<rparr>))"

definition removeChild :: "node \<Rightarrow> node \<Rightarrow> 't state \<Rightarrow> completion \<times> 't state" where
  "removeChild parent child s =
     (if parentNode s child = Some parent
      then (Return (Obj child), s\<lparr>parentNode := (parentNode s)(child := None)\<rparr>)
      else (Throw NotFoundError, s))"

definition cloneNode :: "node \<Rightarrow> 't state \<Rightarrow> node \<times> 't state" where
  "cloneNode el s =
     (let c = nodeCounter s in (c, s\<lparr>nodeCounter := Suc c\<rparr>))"

definition replaceChild :: "node \<Rightarrow> node \<Rightarrow> node \<Rightarrow> 't state \<Rightarrow> 't state" where
  "replaceChild parent new old s =
     s\<lparr>parentNode := (parentNode s)(new := Some parent, old := None)\<rparr>"

text \<open>A listener already on the target's list is not added a second time.\<close>

definition addEventListener ::
  "event_target \<Rightarrow> string \<Rightarrow> callback \<Rightarrow> 't state \<Rightarrow> 't state" where
  "addEventListener tgt ty cb s =
     (if (tgt, ty, cb) \<in> set (listeners s) then s
      else s\<lparr>listeners := listeners s @ [(tgt, ty, cb)]\<rparr>)"

definition removeEventListener ::
  "event_target \<Rightarrow> string \<Rightarrow> callback \<Rightarrow> 't state \<Rightarrow> 't state" where
  "removeEventListener tgt ty cb s = s\<lparr>listeners := removeAll (tgt, ty, cb) (listeners s)\<rparr>"

definition requestAnimationFrame :: "callback \<Rightarrow> 't state \<Rightarrow> nat \<times> 't state" where
  "requestAnimationFrame cb s =
     (let h = Suc (frameCounter s)
      in (h, called (Window_requestAnimationFrame h)
               (s\<lparr>frameCounter := h, frames := frames s @ [(h, cb)]\<rparr>)))"

definition cancelAnimationFrame :: "nat \<Rightarrow> 't state \<Rightarrow> 't state" where
  "cancelAnimationFrame h s =
     called (Window_cancelAnimationFrame h)
       (s\<lparr>frames := filter (\<lambda>f. fst f \<noteq> h) (frames s)\<rparr>)"

text \<open>\<^verbatim>\<open>this.orbitControls.update()\<close>: a TypeError once the field is undefined.\<close>

definition controls_update :: "'t state \<Rightarrow> completion \<times> 't state" where
  "controls_update s =
     (case orbitControls s of
        None \<Rightarrow> (Throw TypeError, s)
      | Some oc \<Rightarrow> (Return Undefined, called Controls_update s))"

section \<open>String to number\<close>

text \<open>
  \<^verbatim>\<open>isNaN(Number(value))\<close> for a string: the conversion yields NaN exactly when the string,
  with white space trimmed at both ends, is neither empty nor a numeric literal of the
  language (a signed decimal literal, \<^verbatim>\<open>Infinity\<close> with or without sign, or an unsigned
  hexadecimal, octal or binary integer literal). Strings are over the code units 0 to 255.
\<close>

definition isStrWhiteSpaceChar :: "char \<Rightarrow> bool" where
  "isStrWhiteSpaceChar c =
     (c \<in> set [CHR 0x09, CHR 0x0A, CHR 0x0B, CHR 0x0C, CHR 0x0D, CHR 0x20, CHR 0xA0])"

definition trimString :: "string \<Rightarrow> string" where
  "trimString v = rev (dropWhile isStrWhiteSpaceChar (rev (dropWhile isStrWhiteSpaceChar v)))"

definition isDecimalDigit :: "char \<Rightarrow> bool" where
  "isDecimalDigit c = (c \<in> set ''0123456789'')"

definition isHexDigit :: "char \<Rightarrow> bool" where
  "isHexDigit c = (c \<in> set ''0123456789abcdefABCDEF'')"

definition isOctalDigit :: "char \<Rightarrow> bool" where
  "isOctalDigit c = (c \<in> set ''01234567'')"

definition isBinaryDigit :: "char \<Rightarrow> bool" where
  "isBinaryDigit c = (c \<in> set ''01'')"

definition isDecimalDigits :: "string \<Rightarrow> bool" where
  "isDecimalDigits v = (v \<noteq> [] \<and> list_all isDecimalDigit v)"

fun dropSign :: "string \<Rightarrow> string" where
  "dropSign [] = []"
| "dropSign (c # cs) = (if c = CHR ''+'' \<or> c = CHR ''-'' then cs else c # cs)"

definition isExponentPart :: "string \<Rightarrow> bool" where
  "isExponentPart v =
     (case v of
        [] \<Rightarrow> False
      | c # cs \<Rightarrow> (c = CHR ''e'' \<or> c = CHR ''E'') \<and> isDecimalDigits (dropSign cs))"

definition isStrUnsignedDecimalLiteral :: "string \<Rightarrow> bool" where
  "isStrUnsignedDecimalLiteral v =
     (v = ''Infinity'' \<or>
      (let ip = takeWhile isDecimalDigit v;
           r1 = dropWhile isDecimalDigit v;
           dot = (case r1 of [] \<Rightarrow> False | c # cs \<Rightarrow> c = CHR ''.'');
           r2 = (if dot then tl r1 else r1);
           fp = takeWhile isDecimalDigit r2;
           r3 = dropWhile isDecimalDigit r2
       in (ip \<noteq> [] \<or> (dot \<and> fp \<noteq> [])) \<and> (r3 = [] \<or> isExponentPart r3)))"

definition isNonDecimalIntegerLiteral :: "string \<Rightarrow> bool" where
  "isNonDecimalIntegerLiteral v =
     (case v of
        z # x # ds \<Rightarrow>
          z = CHR ''0'' \<and> ds \<noteq> [] \<and>
          ((x \<in> set ''xX'' \<and> list_all isHexDigit ds) \<or>
           (x \<in> set ''oO'' \<and> list_all isOctalDigit ds) \<or>
           (x \<in> set ''bB'' \<and> list_all isBinaryDigit ds))
      | _ \<Rightarrow> False)"

definition isStrNumericLiteral :: "string \<Rightarrow> bool" where
  "isStrNumericLiteral v =
     (isNonDecimalIntegerLiteral v \<or> isStrUnsignedDecimalLiteral (dropSign v))"

definition Number_isNaN :: "string \<Rightarrow> bool" where
  "Number_isNaN v = (let t = trimString v in t \<noteq> [] \<and> \<not> isStrNumericLiteral t)"

section \<open>The Viewer\<close>

text \<open>\<^verbatim>\<open>Math.PI\<close> is the double nearest to \<open>\<pi>\<close>, the fraction below.\<close>

definition Math_PI :: real where
  "Math_PI = 884279719003555 / 281474976710656"

subsection \<open>resize\<close>

definition resize :: "'t state \<Rightarrow> completion \<times> 't state" where
  "resize s =
     (case targetEl s of
        None \<Rightarrow> (Throw TypeError, s)
      | Some el \<Rightarrow>
          (let (width, height) = clientRect s el
           in (Return Undefined,
               called (Renderer_setSize width height)
                 (called Camera_updateProjectionMatrix
                   (called (Camera_aspect width height) s)))))"

subsection \<open>initialize\<close>

text \<open>
  \<^verbatim>\<open>targetEl.querySelector(sel).addEventListener(ty, cb)\<close>: a TypeError when no descendant
  matches the selector.
\<close>

definition listenOn ::
  "node \<Rightarrow> string \<Rightarrow> string \<Rightarrow> callback \<Rightarrow> 't state \<Rightarrow> completion \<times> 't state" where
  "listenOn el sel ty cb s =
     (case querySelector s el sel of
        None \<Rightarrow> (Throw TypeError, s)
      | Some c \<Rightarrow> (Return Undefined, addEventListener (Element c) ty cb s))"

definition configureControls :: "'t state \<Rightarrow> completion \<times> 't state" where
  "configureControls s =
     (case orbitControls s of
        None \<Rightarrow> (Throw TypeError, s)
      | Some oc \<Rightarrow>
          (Return Undefined,
           s\<lparr>orbitControls := Some (oc\<lparr>enableDamping := True,
                                       dampingFactor := 0.05,
                                       screenSpacePanning := False,
                                       minDistance := 10,
                                       maxDistance := 50,
                                       maxPolarAngle := Math_PI / 2\<rparr>)\<rparr>))"

definition initialize :: "node option \<Rightarrow> 't state \<Rightarrow> completion \<times> 't state" where
  "initialize arg s =
     (case arg of
        None \<Rightarrow> (Return Undefined, s)
      | Some el \<Rightarrow>
          (case targetEl s of
             Some old \<Rightarrow> (Return Undefined, s)
           | None \<Rightarrow>
               andThen (appendChild el (domElement s) (s\<lparr>targetEl := Some el\<rparr>))
                 (\<lambda>s. andThen (configureControls s)
                 (\<lambda>s. andThen (resize s)
                 (\<lambda>s. andThen (Return Undefined, addEventListener Window ''resize'' Cb_resize s)
                 (\<lambda>s. andThen (listenOn el ''input[name=opacity]'' ''input'' Cb_changePointsOpacity s)
                 (\<lambda>s. andThen (listenOn el ''input[name=size]'' ''input'' Cb_changePointsSize s)
                 (\<lambda>s. andThen (listenOn el ''select[name=layers]'' ''change'' Cb_changeLayer s)
                 (\<lambda>s. andThen (listenOn el ''select'' ''change'' Cb_configPointsShape s)
                 (\<lambda>s. (Return Undefined, snd (requestAnimationFrame Cb_loop s))))))))))))"

subsection \<open>destroy\<close>

definition destroy :: "'t state \<Rightarrow> completion \<times> 't state" where
  "destroy s =
     (case targetEl s of
        None \<Rightarrow> (Throw TypeError, s)
      | Some el \<Rightarrow>
          andThen (removeChild el (domElement s) s)
            (\<lambda>s. let (targetElClone, s) = cloneNode el s
                 in (case parentNode s el of
                       None \<Rightarrow> (Throw TypeError, s)
                     | Some parent \<Rightarrow>
                         (let s = replaceChild parent targetElClone el s;
                              s = s\<lparr>targetEl := None\<rparr>;
                              s = s\<lparr>orbitControls := None\<rparr>;
                              s = removeEventListener Window ''resize'' Cb_resize s;
                              s = s\<lparr>pointClouds := []\<rparr>
                          in (Return Undefined,
                              (case reqAnimationFrameHandle s of
                                 None \<Rightarrow> s
                               | Some h \<Rightarrow> cancelAnimationFrame h s))))))"

subsection \<open>load\<close>

text \<open>The resolver handed to the loader: \<^verbatim>\<open>(url) => `${baseUrl}${url}`\<close>.\<close>

definition getUrl :: "string \<Rightarrow> string \<Rightarrow> string" where
  "getUrl baseUrl url = baseUrl @ url"

text \<open>
  The synchronous part of \<^verbatim>\<open>load\<close>: the call of \<^verbatim>\<open>potree.loadPointCloud\<close> with the file
  name and the resolver \<open>getUrl baseUrl\<close>. The promise it returns is settled by the library.
\<close>

definition loadPointCloud :: "string \<Rightarrow> string \<Rightarrow> 't state \<Rightarrow> 't state" where
  "loadPointCloud fileName baseUrl s = called (Potree_loadPointCloud fileName baseUrl) s"

text \<open>
  \<^verbatim>\<open>this.scene.add(pco)\<close> for a handle that has no parent yet, as the handles the loader
  creates: it becomes the last child of the scene.
\<close>

definition scene_add :: "pco \<Rightarrow> 't state \<Rightarrow> 't state" where
  "scene_add p s = s\<lparr>scene := scene s @ [p]\<rparr>"

definition set_pointColorType :: "PointColorType \<Rightarrow> pco \<Rightarrow> 't state \<Rightarrow> 't state" where
  "set_pointColorType c p s =
     s\<lparr>material := (material s)(p := (material s p)\<lparr>pointColorType := c\<rparr>)\<rparr>"

text \<open>
  The function passed to \<^verbatim>\<open>then\<close>: a block body of three statements and no
  \<^verbatim>\<open>return\<close>, so the call completes with \<^verbatim>\<open>undefined\<close>.
\<close>

definition load_onFulfilled :: "pco \<Rightarrow> 't state \<Rightarrow> completion \<times> 't state" where
  "load_onFulfilled p s =
     (let s = set_pointColorType RGB p s;
          s = scene_add p s;
          s = s\<lparr>pointClouds := pointClouds s @ [p]\<rparr>
      in (Return Undefined, s))"

text \<open>
  \<^verbatim>\<open>promise.then(onFulfilled)\<close> at the moment the promise settles, in the state of that
  moment: the derived promise is fulfilled with what the callback returns, rejected with
  what it throws, and rejected with the same reason when the promise is rejected (no
  rejection handler is given, and the callback is not called).
\<close>

definition promise_then ::
  "('a \<Rightarrow> 's \<Rightarrow> completion \<times> 's) \<Rightarrow> 'a settlement \<Rightarrow> 's \<Rightarrow> js_value settlement \<times> 's" where
  "promise_then onFulfilled p s =
     (case p of
        Rejected e \<Rightarrow> (Rejected e, s)
      | Fulfilled x \<Rightarrow>
          (case onFulfilled x s of
             (Return v, s') \<Rightarrow> (Fulfilled v, s')
           | (Throw e, s') \<Rightarrow> (Rejected e, s')))"

definition load_settled :: "pco settlement \<Rightarrow> 't state \<Rightarrow> js_value settlement \<times> 't state" where
  "load_settled p s = promise_then load_onFulfilled p s"

text \<open>A call of \<^verbatim>\<open>load\<close> whose loader promise settles before anything else runs.\<close>

definition load ::
  "string \<Rightarrow> string \<Rightarrow> pco settlement \<Rightarrow> 't state \<Rightarrow> js_value settlement \<times> 't state" where
  "load fileName baseUrl p s = load_settled p (loadPointCloud fileName baseUrl s)"

subsection \<open>update, render, loop\<close>

text \<open>
  \<^verbatim>\<open>update\<close> and \<^verbatim>\<open>render\<close> record their own entry, \<^verbatim>\<open>update\<close> with its argument,
  before the calls they make on the controls, the point-cloud manager and the renderer.
\<close>

definition update :: "'t \<Rightarrow> 't state \<Rightarrow> completion \<times> 't state" where
  "update dt s =
     andThen (controls_update (called (Viewer_update dt) s))
       (\<lambda>s. (Return Undefined, called (Potree_updatePointClouds (pointClouds s)) s))"

definition render :: "'t state \<Rightarrow> completion \<times> 't state" where
  "render s =
     (Return Undefined,
      called (Renderer_render (scene s)) (called Renderer_clear (called Viewer_render s)))"

definition loop :: "'t::minus \<Rightarrow> 't state \<Rightarrow> completion \<times> 't state" where
  "loop time s =
     (let (h, s) = requestAnimationFrame Cb_loop s;
          s = s\<lparr>reqAnimationFrameHandle := Some h\<rparr>;
          prev = prevTime s;
          s = s\<lparr>prevTime := Some time\<rparr>
      in (case prev of
            None \<Rightarrow> (Return Undefined, s)
          | Some t0 \<Rightarrow>
              andThen (controls_update s)
                (\<lambda>s. andThen (update (time - t0) s) render)))"

text \<open>
  A frame of the host: the pending callbacks are taken off the scheduler's list and
  \<^verbatim>\<open>loop\<close>, when it is among them, is called with the timestamp of the frame.
\<close>

definition animationFrame :: "'t::minus \<Rightarrow> 't state \<Rightarrow> completion \<times> 't state" where
  "animationFrame time s =
     (if Cb_loop \<in> set (map snd (frames s)) then loop time (s\<lparr>frames := []\<rparr>)
      else (Return Undefined, s\<lparr>frames := []\<rparr>))"

subsection \<open>The handlers of the controls\<close>

text \<open>Each handler reads \<^verbatim>\<open>e.target.value\<close>, a string, which is its argument here.\<close>

definition forEach :: "('a \<Rightarrow> 's \<Rightarrow> 's) \<Rightarrow> 'a list \<Rightarrow> 's \<Rightarrow> 's" where
  "forEach f xs s = fold f xs s"

definition set_shape :: "PointShape \<Rightarrow> pco \<Rightarrow> 't state \<Rightarrow> 't state" where
  "set_shape sh p s = s\<lparr>material := (material s)(p := (material s p)\<lparr>shape := sh\<rparr>)\<rparr>"

definition set_opacity :: "js_value \<Rightarrow> pco \<Rightarrow> 't state \<Rightarrow> 't state" where
  "set_opacity v p s = s\<lparr>material := (material s)(p := (material s p)\<lparr>opacity := v\<rparr>)\<rparr>"

definition set_size :: "js_value \<Rightarrow> pco \<Rightarrow> 't state \<Rightarrow> 't state" where
  "set_size v p s = s\<lparr>material := (material s)(p := (material s p)\<lparr>size' := v\<rparr>)\<rparr>"

definition configPointsShape :: "string \<Rightarrow> 't state \<Rightarrow> completion \<times> 't state" where
  "configPointsShape v s =
     (Return Undefined,
      if v = ''Square'' then forEach (set_shape SQUARE) (pointClouds s) s
      else if v = ''Circle'' then forEach (set_shape CIRCLE) (pointClouds s) s
      else if v = ''Paraboloid'' then forEach (set_shape PARABOLOID) (pointClouds s) s
      else s)"

definition changeLayer :: "string \<Rightarrow> 't state \<Rightarrow> completion \<times> 't state" where
  "changeLayer v s =
     (Return Undefined,
      if v = ''1'' then forEach (set_pointColorType RGB) (pointClouds s) s
      else if v = ''2'' then forEach (set_pointColorType RGB_HEIGHT) (pointClouds s) s
      else s)"

definition changePointsOpacity :: "string \<Rightarrow> 't state \<Rightarrow> completion \<times> 't state" where
  "changePointsOpacity v s =
     (Return Undefined,
      if \<not> Number_isNaN v \<and> v \<noteq> '''' then forEach (set_opacity (Str v)) (pointClouds s) s
      else s)"

definition changePointsSize :: "string \<Rightarrow> 't state \<Rightarrow> completion \<times> 't state" where
  "changePointsSize v s =
     (Return Undefined,
      if \<not> Number_isNaN v \<and> v \<noteq> '''' then forEach (set_size (Str v)) (pointClouds s) s
      else s)"

section \<open>A page\<close>

text \<open>
  A document for the examples: node 0 is the body; node 1, a child of the body, and node
  10, which has no parent, each contain the four controls; node 100 is the canvas of the
  renderer. The Viewer is as its field initialisers leave it. The states below are reached
  from it by the calls of the entry point, \<^verbatim>\<open>initialize\<close> and then \<^verbatim>\<open>load\<close>, by
  frames of the host and by \<^verbatim>\<open>destroy\<close>.
\<close>

definition page_querySelector :: "node \<Rightarrow> string \<Rightarrow> node option" where
  "page_querySelector el sel =
     (if el = 1 \<or> el = 10 then
        (if sel = ''input[name=opacity]'' then Some (el + 1)
         else if sel = ''input[name=size]'' then Some (el + 2)
         else if sel = ''select[name=layers]'' then Some (el + 3)
         else if sel = ''select'' then Some (el + 4)
         else None)
      else None)"

definition page :: "real state" where
  "page =
     \<lparr>targetEl = None, domElement = 100, scene = [],
      orbitControls = Some \<lparr>enableDamping = False, dampingFactor = 0.05,
                             screenSpacePanning = True, minDistance = 0,
                             maxDistance = 1000, maxPolarAngle = Math_PI\<rparr>,
      pointClouds = [], prevTime = None, reqAnimationFrameHandle = None,
      material = (\<lambda>p. \<lparr>pointColorType = OtherColorType 1, shape = SQUARE,
                        opacity = Num 1, size' = Num 1\<rparr>),
      parentNode = (\<lambda>n. if n \<in> {1, 2, 3, 4, 5} then Some (if n = 1 then 0 else 1)
                         else if n \<in> {11, 12, 13, 14} then Some 10 else None),
      querySelector = page_querySelector,
      clientRect = (\<lambda>n. (800, 600)),
      nodeCounter = 101,
      listeners = [], frames = [], frameCounter = 0, calls = []\<rparr>"

definition cloud_url :: string where
  "cloud_url = ''https://cdn.rawgit.com/potree/potree/develop/pointclouds/lion_takanawa/''"

definition page_initialized :: "real state" where
  "page_initialized = snd (initialize (Some 1) page)"

definition page_loaded :: "real state" where
  "page_loaded = snd (load ''cloud.js'' cloud_url (Fulfilled 7) page_initialized)"

definition page_running :: "real state" where
  "page_running = snd (animationFrame 16 page_loaded)"

definition page_destroyed_early :: "real state" where
  "page_destroyed_early = snd (animationFrame 16 (snd (destroy page_initialized)))"

definition detached_loaded :: "real state" where
  "detached_loaded =
     snd (animationFrame 16
       (snd (load ''cloud.js'' cloud_url (Fulfilled 7) (snd (initialize (Some 10) page)))))"

section \<open>Evaluation and shared lemmas\<close>

lemmas dom_defs = appendChild_def removeChild_def cloneNode_def replaceChild_def
  addEventListener_def removeEventListener_def requestAnimationFrame_def
  cancelAnimationFrame_def called_def andThen_def

lemmas viewer_defs = initialize_def destroy_def resize_def listenOn_def configureControls_def
  controls_update_def update_def render_def loop_def animationFrame_def
  load_def load_settled_def promise_then_def load_onFulfilled_def loadPointCloud_def
  scene_add_def set_pointColorType_def

lemmas page_defs = page_def page_querySelector_def page_initialized_def page_loaded_def
  page_running_def page_destroyed_early_def detached_loaded_def cloud_url_def

text \<open>
  A \<^verbatim>\<open>forEach\<close> whose callback assigns one property of \<^verbatim>\<open>p.material\<close> changes the
  materials of the handles on the list, each in the same way, and nothing else.
\<close>

lemma forEach_material:
  assumes f: "\<And>p s. f p s = s\<lparr>material := (material s)(p := g (material s p))\<rparr>"
      and g: "\<And>m. g (g m) = g m"
  shows "forEach f ps s =
         s\<lparr>material := (\<lambda>p. if p \<in> set ps then g (material s p) else material s p)\<rparr>"
proof (induction ps arbitrary: s)
  case Nil
  show ?case by (simp add: forEach_def)
next
  case (Cons q qs)
  have "forEach f (q # qs) s = forEach f qs (f q s)"
    by (simp add: forEach_def)
  also have "\<dots> = (f q s)\<lparr>material :=
      (\<lambda>p. if p \<in> set qs then g (material (f q s) p) else material (f q s) p)\<rparr>"
    by (rule Cons.IH)
  also have "\<dots> = s\<lparr>material :=
      (\<lambda>p. if p \<in> set (q # qs) then g (material s p) else material s p)\<rparr>"
    by (simp add: f g fun_eq_iff)
  finally show ?case .
qed

lemma forEach_set_shape:
  "forEach (set_shape sh) ps s =
   s\<lparr>material := (\<lambda>p. if p \<in> set ps then (material s p)\<lparr>shape := sh\<rparr> else material s p)\<rparr>"
  by (rule forEach_material [where g = "\<lambda>m. m\<lparr>shape := sh\<rparr>"]) (simp_all add: set_shape_def)

lemma forEach_set_opacity:
  "forEach (set_opacity v) ps s =
   s\<lparr>material := (\<lambda>p. if p \<in> set ps then (material s p)\<lparr>opacity := v\<rparr> else material s p)\<rparr>"
  by (rule forEach_material [where g = "\<lambda>m. m\<lparr>opacity := v\<rparr>"]) (simp_all add: set_opacity_def)

lemma forEach_set_size:
  "forEach (set_size v) ps s =
   s\<lparr>material := (\<lambda>p. if p \<in> set ps then (material s p)\<lparr>size' := v\<rparr> else material s p)\<rparr>"
  by (rule forEach_material [where g = "\<lambda>m. m\<lparr>size' := v\<rparr>"]) (simp_all add: set_size_def)

lemma load_settled_Fulfilled:
  "load_settled (Fulfilled p) s =
     (Fulfilled Undefined,
      s\<lparr>material := (material s)(p := (material s p)\<lparr>pointColorType := RGB\<rparr>),
        scene := scene s @ [p],
        pointClouds := pointClouds s @ [p]\<rparr>)"
  by (simp add: load_settled_def promise_then_def load_onFulfilled_def scene_add_def
      set_pointColorType_def)

lemma load_settled_Rejected: "load_settled (Rejected e) s = (Rejected e, s)"
  by (simp add: load_settled_def promise_then_def)

lemmas number_defs = Number_isNaN_def trimString_def isStrWhiteSpaceChar_def
  isStrNumericLiteral_def isNonDecimalIntegerLiteral_def isStrUnsignedDecimalLiteral_def
  isExponentPart_def isDecimalDigits_def isDecimalDigit_def isHexDigit_def isOctalDigit_def
  isBinaryDigit_def

lemma Number_isNaN_examples:
  "\<not> Number_isNaN ''0.5''" "\<not> Number_isNaN ''''" "Number_isNaN ''abc''"
  by (simp_all add: number_defs Let_def)

text \<open>What a completed \<^verbatim>\<open>destroy\<close> leaves, and when it completes.\<close>

lemma destroy_Return:
  assumes "fst (destroy s) = Return v"
  shows "v = Undefined \<and>
         targetEl (snd (destroy s)) = None \<and>
         orbitControls (snd (destroy s)) = None \<and>
         pointClouds (snd (destroy s)) = [] \<and>
         scene (snd (destroy s)) = scene s \<and>
         material (snd (destroy s)) = material s \<and>
         listeners (snd (destroy s)) = removeAll (Window, ''resize'', Cb_resize) (listeners s) \<and>
         frames (snd (destroy s)) =
           (case reqAnimationFrameHandle s of
              None \<Rightarrow> frames s
            | Some h \<Rightarrow> filter (\<lambda>f. fst f \<noteq> h) (frames s)) \<and>
         calls (snd (destroy s)) =
           (case reqAnimationFrameHandle s of
              None \<Rightarrow> calls s
            | Some h \<Rightarrow> calls s @ [Window_cancelAnimationFrame h])"
  using assms
  by (auto simp: destroy_def dom_defs Let_def split: option.splits if_splits)

lemma destroy_completes:
  assumes "targetEl s = Some el" and "parentNode s (domElement s) = Some el"
      and "el \<noteq> domElement s" and "parentNode s el \<noteq> None"
  shows "fst (destroy s) = Return Undefined"
  using assms
  by (auto simp: destroy_def dom_defs Let_def split: option.splits if_splits)

text \<open>
  When \<^verbatim>\<open>destroy\<close> does not complete, and that \<^verbatim>\<open>initialize\<close> keeps the target
  element it has set through all its later statements.
\<close>

lemma destroy_NotFound:
  assumes "targetEl s = Some el" and "parentNode s (domElement s) \<noteq> Some el"
  shows "destroy s = (Throw NotFoundError, s)"
  using assms by (simp add: destroy_def removeChild_def andThen_def)

lemma destroy_no_parent:
  assumes "targetEl s = Some el" and "parentNode s (domElement s) = Some el"
      and "el = domElement s \<or> parentNode s el = None"
  shows "fst (destroy s) = Throw TypeError \<and>
         targetEl (snd (destroy s)) = Some el \<and>
         orbitControls (snd (destroy s)) = orbitControls s \<and>
         pointClouds (snd (destroy s)) = pointClouds s \<and>
         listeners (snd (destroy s)) = listeners s \<and>
         frames (snd (destroy s)) = frames s \<and>
         calls (snd (destroy s)) = calls s"
  using assms
  by (auto simp: destroy_def dom_defs Let_def split: option.splits if_splits)

lemma andThen_targetEl:
  assumes "targetEl (snd r) = Some el"
      and "\<And>s. targetEl s = Some el \<Longrightarrow> targetEl (snd (f s)) = Some el"
  shows "targetEl (snd (andThen r f)) = Some el"
proof (cases r)
  case (Pair c s)
  then show ?thesis
    using assms by (cases c) (simp_all add: andThen_def)
qed

lemma targetEl_steps:
  "targetEl (snd (appendChild parent child s)) = targetEl s"
  "targetEl (snd (configureControls s)) = targetEl s"
  "targetEl (snd (resize s)) = targetEl s"
  "targetEl (addEventListener tgt ty cb s) = targetEl s"
  "targetEl (snd (listenOn el sel ty cb s)) = targetEl s"
  "targetEl (snd (requestAnimationFrame cb s)) = targetEl s"
  by (simp_all add: appendChild_def configureControls_def resize_def addEventListener_def
      listenOn_def requestAnimationFrame_def called_def Let_def
      split: option.splits prod.splits)

lemma initialize_sets_target:
  assumes "targetEl s = None"
  shows "targetEl (snd (initialize (Some el) s)) = Some el"
proof -
  have "initialize (Some el) s =
      andThen (appendChild el (domElement s) (s\<lparr>targetEl := Some el\<rparr>))
        (\<lambda>s. andThen (configureControls s)
        (\<lambda>s. andThen (resize s)
        (\<lambda>s. andThen (Return Undefined, addEventListener Window ''resize'' Cb_resize s)
        (\<lambda>s. andThen (listenOn el ''input[name=opacity]'' ''input'' Cb_changePointsOpacity s)
        (\<lambda>s. andThen (listenOn el ''input[name=size]'' ''input'' Cb_changePointsSize s)
        (\<lambda>s. andThen (listenOn el ''select[name=layers]'' ''change'' Cb_changeLayer s)
        (\<lambda>s. andThen (listenOn el ''select'' ''change'' Cb_configPointsShape s)
        (\<lambda>s. (Return Undefined, snd (requestAnimationFrame Cb_loop s))))))))))"
    using assms by (simp add: initialize_def)
  also have "targetEl (snd \<dots>) = Some el"
    by (intro andThen_targetEl) (simp_all add: targetEl_steps)
  finally show ?thesis .
qed

section \<open>load\<close>

text \<open>
  C1 (as amended). When the loader's promise is fulfilled with the handle \<open>p\<close>, in
  whatever state \<open>s'\<close> the Viewer then is, the continuation of \<^verbatim>\<open>load\<close> sets the colour
  type of \<open>p\<close> to RGB, adds \<open>p\<close> at the end of the children of the scene and appends
  \<open>p\<close> to the list of point clouds, which has one entry more than just before the promise
  was fulfilled. The call itself, made in state \<open>s\<close>, leaves the list as it is; when the
  list at fulfilment is still the list before the call, and so for a call whose promise is
  fulfilled before anything else runs, the list is the one before the call with \<open>p\<close>
  appended, one entry longer.
\<close>

theorem load_success:
  "pointColorType (material (snd (load_settled (Fulfilled p) s')) p) = RGB \<and>
   scene (snd (load_settled (Fulfilled p) s')) = scene s' @ [p] \<and>
   pointClouds (snd (load_settled (Fulfilled p) s')) = pointClouds s' @ [p] \<and>
   length (pointClouds (snd (load_settled (Fulfilled p) s'))) = length (pointClouds s') + 1 \<and>
   pointClouds (loadPointCloud fileName baseUrl s) = pointClouds s \<and>
   (pointClouds s' = pointClouds s \<longrightarrow>
      pointClouds (snd (load_settled (Fulfilled p) s')) = pointClouds s @ [p] \<and>
      length (pointClouds (snd (load_settled (Fulfilled p) s'))) = length (pointClouds s) + 1) \<and>
   pointColorType (material (snd (load fileName baseUrl (Fulfilled p) s)) p) = RGB \<and>
   scene (snd (load fileName baseUrl (Fulfilled p) s)) = scene s @ [p] \<and>
   pointClouds (snd (load fileName baseUrl (Fulfilled p) s)) = pointClouds s @ [p] \<and>
   length (pointClouds (snd (load fileName baseUrl (Fulfilled p) s))) = length (pointClouds s) + 1"
  by (simp add: load_def load_settled_Fulfilled loadPointCloud_def called_def)

theorem load_success_witness:
  "pointClouds page_initialized = [] \<and>
   pointColorType (material page_initialized 7) = OtherColorType 1 \<and>
   pointColorType (material page_loaded 7) = RGB \<and>
   scene page_loaded = [7] \<and>
   pointClouds page_loaded = [7] \<and>
   pointClouds (snd (animationFrame 16 (loadPointCloud ''cloud.js'' cloud_url page_initialized)))
     = pointClouds page_initialized \<and>
   pointClouds (snd (load_settled (Fulfilled 7)
     (snd (animationFrame 16 (loadPointCloud ''cloud.js'' cloud_url page_initialized))))) = [7]"
proof -
  have a: "pointClouds page_initialized = []" "scene page_initialized = []"
    "pointColorType (material page_initialized 7) = OtherColorType 1"
    "pointClouds (snd (animationFrame 16 (loadPointCloud ''cloud.js'' cloud_url page_initialized)))
       = pointClouds page_initialized"
    by (simp_all add: page_defs viewer_defs dom_defs Let_def)
  show ?thesis
    using load_success [of 7 page_initialized "''cloud.js''" cloud_url page_initialized]
      load_success [of 7
        "snd (animationFrame 16 (loadPointCloud ''cloud.js'' cloud_url page_initialized))"
        "''cloud.js''" cloud_url page_initialized] a
    by (simp add: page_loaded_def)
qed

text \<open>
  Measured from before the call, the list need not be one entry longer. A \<^verbatim>\<open>destroy\<close>
  between the call and the fulfilment: the list is \<open>[7]\<close> before the call and \<open>[8]\<close>
  after the fulfilment, one entry and not two. Two calls in flight from the empty list, the
  second fulfilled first: after the fulfilment of the first call the list has two entries
  and not one.
\<close>

theorem load_interleaved_counterexample:
  "pointClouds page_running = [7] \<and>
   fst (destroy (loadPointCloud ''cloud.js'' cloud_url page_running)) = Return Undefined \<and>
   pointClouds (snd (load_settled (Fulfilled 8)
      (snd (destroy (loadPointCloud ''cloud.js'' cloud_url page_running))))) = [8] \<and>
   length (pointClouds (snd (load_settled (Fulfilled 8)
      (snd (destroy (loadPointCloud ''cloud.js'' cloud_url page_running))))))
     \<noteq> length (pointClouds page_running) + 1 \<and>
   pointClouds page_initialized = [] \<and>
   pointClouds (snd (load_settled (Fulfilled 8) (snd (load_settled (Fulfilled 9)
      (loadPointCloud ''other.js'' cloud_url
        (loadPointCloud ''cloud.js'' cloud_url page_initialized)))))) = [9, 8] \<and>
   length (pointClouds (snd (load_settled (Fulfilled 8) (snd (load_settled (Fulfilled 9)
      (loadPointCloud ''other.js'' cloud_url
        (loadPointCloud ''cloud.js'' cloud_url page_initialized)))))))
     \<noteq> length (pointClouds page_initialized) + 1"
  by (simp add: page_defs viewer_defs dom_defs Let_def)

text \<open>
  C2. The promise that \<^verbatim>\<open>load\<close> returns is the one derived by \<^verbatim>\<open>then\<close>; its callback
  has no \<^verbatim>\<open>return\<close>, so the promise is fulfilled with \<^verbatim>\<open>undefined\<close> and not with the
  handle that went into the scene and the list.
\<close>

theorem load_fulfils_with_undefined:
  "fst (load fileName baseUrl (Fulfilled p) s) = Fulfilled Undefined \<and>
   fst (load fileName baseUrl (Fulfilled p) s) \<noteq> Fulfilled (Obj p)"
  by (simp add: load_def load_settled_Fulfilled)

theorem load_fulfils_with_undefined_witness:
  "fst (load ''cloud.js'' cloud_url (Fulfilled 7) page_initialized) = Fulfilled Undefined \<and>
   pointClouds (snd (load ''cloud.js'' cloud_url (Fulfilled 7) page_initialized)) = [7]"
  using load_fulfils_with_undefined [of "''cloud.js''" cloud_url 7 page_initialized]
  by (simp add: page_defs viewer_defs dom_defs Let_def)

text \<open>
  C5. When the loader's promise is rejected with reason \<open>e\<close>, the promise of \<^verbatim>\<open>load\<close> is
  rejected with the same \<open>e\<close>; the continuation does not run, so the list of point clouds,
  the scene and the materials are as before, and the only call made is the one call of the
  loader.
\<close>

theorem load_rejected:
  "load fileName baseUrl (Rejected e) s =
     (Rejected e, s\<lparr>calls := calls s @ [Potree_loadPointCloud fileName baseUrl]\<rparr>) \<and>
   load_settled (Rejected e) s = (Rejected e, s) \<and>
   pointClouds (snd (load fileName baseUrl (Rejected e) s)) = pointClouds s \<and>
   scene (snd (load fileName baseUrl (Rejected e) s)) = scene s \<and>
   material (snd (load fileName baseUrl (Rejected e) s)) = material s"
  by (simp add: load_def load_settled_Rejected loadPointCloud_def called_def)

theorem load_rejected_witness:
  "fst (load ''cloud.js'' cloud_url (Rejected (LoadFailure ''404'')) page_loaded)
     = Rejected (LoadFailure ''404'') \<and>
   pointClouds (snd (load ''cloud.js'' cloud_url (Rejected (LoadFailure ''404'')) page_loaded)) = [7] \<and>
   scene (snd (load ''cloud.js'' cloud_url (Rejected (LoadFailure ''404'')) page_loaded)) = [7]"
  using load_rejected [of "''cloud.js''" cloud_url "LoadFailure ''404''" page_loaded]
  by (simp add: page_defs viewer_defs dom_defs Let_def)

text \<open>
  C6. The continuation of \<^verbatim>\<open>load\<close> does not look at whether the Viewer has been
  destroyed. When \<^verbatim>\<open>destroy\<close> has completed, the list is empty and the target element
  unset; a loader promise fulfilled with \<open>p\<close> after that still sets the colour type of
  \<open>p\<close>, adds \<open>p\<close> to the scene and appends it to the list, which is then \<open>[p]\<close>, not
  empty, on a Viewer whose target element is still unset.
\<close>

theorem load_after_destroy:
  assumes "fst (destroy s) = Return v"
  shows "pointClouds (snd (destroy s)) = [] \<and>
         targetEl (snd (destroy s)) = None \<and>
         fst (load_settled (Fulfilled p) (snd (destroy s))) = Fulfilled Undefined \<and>
         pointClouds (snd (load_settled (Fulfilled p) (snd (destroy s)))) = [p] \<and>
         pointClouds (snd (load_settled (Fulfilled p) (snd (destroy s)))) \<noteq> [] \<and>
         scene (snd (load_settled (Fulfilled p) (snd (destroy s)))) = scene s @ [p] \<and>
         pointColorType (material (snd (load_settled (Fulfilled p) (snd (destroy s)))) p) = RGB \<and>
         targetEl (snd (load_settled (Fulfilled p) (snd (destroy s)))) = None"
  using destroy_Return [OF assms] by (simp add: load_settled_Fulfilled)

text \<open>
  The interleaving on the page: \<^verbatim>\<open>load\<close> is called, \<^verbatim>\<open>destroy\<close> runs while the
  loader's promise is pending, then the promise is fulfilled with handle 7.
\<close>

theorem load_after_destroy_witness:
  "fst (destroy (loadPointCloud ''cloud.js'' cloud_url page_initialized)) = Return Undefined \<and>
   pointClouds (snd (destroy (loadPointCloud ''cloud.js'' cloud_url page_initialized))) = [] \<and>
   pointClouds (snd (load_settled (Fulfilled 7)
      (snd (destroy (loadPointCloud ''cloud.js'' cloud_url page_initialized))))) = [7] \<and>
   scene (snd (load_settled (Fulfilled 7)
      (snd (destroy (loadPointCloud ''cloud.js'' cloud_url page_initialized))))) = [7]"
proof -
  have a: "fst (destroy (loadPointCloud ''cloud.js'' cloud_url page_initialized)) = Return Undefined"
    by (simp add: page_defs viewer_defs dom_defs Let_def)
  have b: "scene (loadPointCloud ''cloud.js'' cloud_url page_initialized) = []"
    by (simp add: page_defs viewer_defs dom_defs Let_def)
  show ?thesis
    using load_after_destroy [OF a, of 7] a b by simp
qed

section \<open>destroy\<close>

text \<open>
  C10. On a Viewer whose target element is unset, \<^verbatim>\<open>destroy\<close> throws a TypeError at its
  first statement, the dereference of the target element, and nothing of the state has
  changed: the list is not cleared, no listener is removed, no frame is cancelled.
\<close>

theorem destroy_uninitialized:
  "targetEl s = None \<Longrightarrow> destroy s = (Throw TypeError, s)"
  by (simp add: destroy_def)

theorem destroy_uninitialized_witness:
  "targetEl page = None \<and> destroy page = (Throw TypeError, page)"
proof -
  have h: "targetEl page = None" by (simp add: page_def)
  show ?thesis using h destroy_uninitialized [OF h] by simp
qed

text \<open>
  C9 (as amended). On a Viewer whose target element is set, \<^verbatim>\<open>destroy\<close> runs to
  completion when the canvas is a child of the target element and the target element is
  another node that has a parent node. In every other case it throws before the cleanup:
  a NotFoundError with the state unchanged when the canvas is not a child of the target
  element, and otherwise a TypeError with the target element, the controls, the list of
  point clouds, the listeners and the frame requests as they were. After \<^verbatim>\<open>destroy\<close>
  has run to completion, the list of point clouds is empty, the resize listener of the
  Viewer is no longer on the window's list, and when the frame-handle field holds \<open>h\<close>
  the request \<open>h\<close> has been cancelled (\<open>h\<close> is no longer pending and the last call made
  is \<^verbatim>\<open>cancelAnimationFrame(h)\<close>); when the field is empty nothing is cancelled.
\<close>

theorem destroy_cleans_up:
  "(targetEl s = Some el \<and> parentNode s (domElement s) = Some el \<and> el \<noteq> domElement s \<and>
    parentNode s el \<noteq> None \<longrightarrow> fst (destroy s) = Return Undefined) \<and>
   (targetEl s = Some el \<and> parentNode s (domElement s) \<noteq> Some el \<longrightarrow>
      destroy s = (Throw NotFoundError, s)) \<and>
   (targetEl s = Some el \<and> parentNode s (domElement s) = Some el \<and>
    (el = domElement s \<or> parentNode s el = None) \<longrightarrow>
      fst (destroy s) = Throw TypeError \<and>
      targetEl (snd (destroy s)) = Some el \<and>
      orbitControls (snd (destroy s)) = orbitControls s \<and>
      pointClouds (snd (destroy s)) = pointClouds s \<and>
      listeners (snd (destroy s)) = listeners s \<and>
      frames (snd (destroy s)) = frames s \<and>
      calls (snd (destroy s)) = calls s) \<and>
   (fst (destroy s) = Return v \<longrightarrow>
      pointClouds (snd (destroy s)) = [] \<and>
      (Window, ''resize'', Cb_resize) \<notin> set (listeners (snd (destroy s))) \<and>
      (reqAnimationFrameHandle s = Some h \<longrightarrow>
         h \<notin> fst ` set (frames (snd (destroy s))) \<and>
         calls (snd (destroy s)) = calls s @ [Window_cancelAnimationFrame h]) \<and>
      (reqAnimationFrameHandle s = None \<longrightarrow>
         frames (snd (destroy s)) = frames s \<and> calls (snd (destroy s)) = calls s))"
proof (intro conjI)
  show "targetEl s = Some el \<and> parentNode s (domElement s) = Some el \<and> el \<noteq> domElement s \<and>
    parentNode s el \<noteq> None \<longrightarrow> fst (destroy s) = Return Undefined"
    by (simp add: destroy_completes)
  show "targetEl s = Some el \<and> parentNode s (domElement s) \<noteq> Some el \<longrightarrow>
      destroy s = (Throw NotFoundError, s)"
    by (simp add: destroy_NotFound)
  show "targetEl s = Some el \<and> parentNode s (domElement s) = Some el \<and>
    (el = domElement s \<or> parentNode s el = None) \<longrightarrow>
      fst (destroy s) = Throw TypeError \<and>
      targetEl (snd (destroy s)) = Some el \<and>
      orbitControls (snd (destroy s)) = orbitControls s \<and>
      pointClouds (snd (destroy s)) = pointClouds s \<and>
      listeners (snd (destroy s)) = listeners s \<and>
      frames (snd (destroy s)) = frames s \<and>
      calls (snd (destroy s)) = calls s"
    using destroy_no_parent [of s el] by blast
  show "fst (destroy s) = Return v \<longrightarrow>
      pointClouds (snd (destroy s)) = [] \<and>
      (Window, ''resize'', Cb_resize) \<notin> set (listeners (snd (destroy s))) \<and>
      (reqAnimationFrameHandle s = Some h \<longrightarrow>
         h \<notin> fst ` set (frames (snd (destroy s))) \<and>
         calls (snd (destroy s)) = calls s @ [Window_cancelAnimationFrame h]) \<and>
      (reqAnimationFrameHandle s = None \<longrightarrow>
         frames (snd (destroy s)) = frames s \<and> calls (snd (destroy s)) = calls s)"
  proof
    assume r: "fst (destroy s) = Return v"
    note d = destroy_Return [OF r]
    have 1: "pointClouds (snd (destroy s)) = []" using d by simp
    have 2: "(Window, ''resize'', Cb_resize) \<notin> set (listeners (snd (destroy s)))"
      using d by simp
    have 3: "reqAnimationFrameHandle s = Some h \<longrightarrow>
         h \<notin> fst ` set (frames (snd (destroy s))) \<and>
         calls (snd (destroy s)) = calls s @ [Window_cancelAnimationFrame h]"
      using d by auto
    have 4: "reqAnimationFrameHandle s = None \<longrightarrow>
         frames (snd (destroy s)) = frames s \<and> calls (snd (destroy s)) = calls s"
      using d by simp
    show "pointClouds (snd (destroy s)) = [] \<and>
      (Window, ''resize'', Cb_resize) \<notin> set (listeners (snd (destroy s))) \<and>
      (reqAnimationFrameHandle s = Some h \<longrightarrow>
         h \<notin> fst ` set (frames (snd (destroy s))) \<and>
         calls (snd (destroy s)) = calls s @ [Window_cancelAnimationFrame h]) \<and>
      (reqAnimationFrameHandle s = None \<longrightarrow>
         frames (snd (destroy s)) = frames s \<and> calls (snd (destroy s)) = calls s)"
      by (rule conjI [OF 1 conjI [OF 2 conjI [OF 3 4]]])
  qed
qed

theorem destroy_cleans_up_witness:
  "targetEl page_running = Some 1 \<and>
   parentNode page_running (domElement page_running) = Some 1 \<and>
   1 \<noteq> domElement page_running \<and>
   parentNode page_running 1 \<noteq> None \<and>
   reqAnimationFrameHandle page_running = Some 2 \<and>
   pointClouds page_running = [7] \<and>
   (Window, ''resize'', Cb_resize) \<in> set (listeners page_running) \<and>
   (2, Cb_loop) \<in> set (frames page_running) \<and>
   fst (destroy page_running) = Return Undefined \<and>
   pointClouds (snd (destroy page_running)) = [] \<and>
   (Window, ''resize'', Cb_resize) \<notin> set (listeners (snd (destroy page_running))) \<and>
   2 \<notin> fst ` set (frames (snd (destroy page_running))) \<and>
   targetEl detached_loaded = Some 10 \<and>
   parentNode detached_loaded (domElement detached_loaded) = Some 10 \<and>
   parentNode detached_loaded 10 = None \<and>
   fst (destroy detached_loaded) = Throw TypeError \<and>
   pointClouds (snd (destroy detached_loaded)) = pointClouds detached_loaded \<and>
   listeners (snd (destroy detached_loaded)) = listeners detached_loaded \<and>
   targetEl (snd (destroy detached_loaded)) = Some 10 \<and>
   parentNode (snd (destroy detached_loaded)) (domElement (snd (destroy detached_loaded)))
     \<noteq> Some 10 \<and>
   destroy (snd (destroy detached_loaded)) = (Throw NotFoundError, snd (destroy detached_loaded))"
proof -
  have a: "targetEl page_running = Some 1"
    "parentNode page_running (domElement page_running) = Some 1"
    "1 \<noteq> domElement page_running"
    "parentNode page_running 1 \<noteq> None"
    "reqAnimationFrameHandle page_running = Some 2"
    "pointClouds page_running = [7]"
    "(Window, ''resize'', Cb_resize) \<in> set (listeners page_running)"
    "(2, Cb_loop) \<in> set (frames page_running)"
    by (simp_all add: page_defs viewer_defs dom_defs Let_def)
  have b: "targetEl detached_loaded = Some 10"
    "parentNode detached_loaded (domElement detached_loaded) = Some 10"
    "parentNode detached_loaded 10 = None"
    by (simp_all add: page_defs viewer_defs dom_defs Let_def)
  have c: "parentNode (snd (destroy detached_loaded)) (domElement (snd (destroy detached_loaded)))
     \<noteq> Some 10"
    by (simp add: page_defs viewer_defs dom_defs Let_def)
  have r: "fst (destroy page_running) = Return Undefined"
    using destroy_cleans_up [of page_running 1 Undefined 2] a by simp
  have e: "pointClouds (snd (destroy page_running)) = []"
    "(Window, ''resize'', Cb_resize) \<notin> set (listeners (snd (destroy page_running)))"
    "2 \<notin> fst ` set (frames (snd (destroy page_running)))"
    using destroy_cleans_up [of page_running 1 Undefined 2] a(5) r by simp_all
  have d: "fst (destroy detached_loaded) = Throw TypeError"
    "pointClouds (snd (destroy detached_loaded)) = pointClouds detached_loaded"
    "listeners (snd (destroy detached_loaded)) = listeners detached_loaded"
    "targetEl (snd (destroy detached_loaded)) = Some 10"
    using destroy_cleans_up [of detached_loaded 10 Undefined 2] b by simp_all
  have f: "destroy (snd (destroy detached_loaded)) =
      (Throw NotFoundError, snd (destroy detached_loaded))"
    using destroy_cleans_up [of "snd (destroy detached_loaded)" 10 Undefined 2] c d(4)
    by blast
  show ?thesis
    by (intro conjI a b c d e f r)
qed

text \<open>
  The claim without the amendment fails on an initialized Viewer whose target element has
  no parent node. Node 10 holds the four controls, so \<^verbatim>\<open>initialize\<close> completes on it; a
  point cloud is loaded and a frame has run. \<^verbatim>\<open>destroy\<close> then throws a TypeError at
  \<^verbatim>\<open>this.targetEl.parentNode.replaceChild\<close>, before the cleanup: the list still holds
  the point cloud, the resize listener is still registered, request 2 is still pending.
\<close>

theorem destroy_detached_counterexample:
  "fst (initialize (Some 10) page) = Return Undefined \<and>
   targetEl detached_loaded = Some 10 \<and>
   reqAnimationFrameHandle detached_loaded = Some 2 \<and>
   fst (destroy detached_loaded) = Throw TypeError \<and>
   pointClouds (snd (destroy detached_loaded)) = [7] \<and>
   (Window, ''resize'', Cb_resize) \<in> set (listeners (snd (destroy detached_loaded))) \<and>
   (2, Cb_loop) \<in> set (frames (snd (destroy detached_loaded)))"
  by (simp add: page_defs viewer_defs dom_defs Let_def)

section \<open>initialize\<close>

text \<open>
  C4 (as amended). While the target element is set, \<^verbatim>\<open>initialize\<close> does not set it again:
  called on a Viewer whose target element is set, or with an absent argument, it returns
  with the whole state as it was (no change of the DOM, of the listeners, of the scheduler;
  the target element of a Viewer that had none is still unset after a call with an absent
  argument). Called with an element on a Viewer whose target element is unset it sets the
  target element, whether it then completes or throws; so after \<^verbatim>\<open>destroy\<close> has
  completed, and has unset the target element, a later \<^verbatim>\<open>initialize\<close> sets it again.
\<close>

theorem initialize_guard:
  "(targetEl s \<noteq> None \<or> arg = None \<longrightarrow> initialize arg s = (Return Undefined, s)) \<and>
   (targetEl s = None \<longrightarrow> targetEl (snd (initialize (Some el) s)) = Some el) \<and>
   (fst (destroy s) = Return v \<longrightarrow>
      targetEl (snd (destroy s)) = None \<and>
      targetEl (snd (initialize (Some el) (snd (destroy s)))) = Some el)"
proof (intro conjI impI)
  assume "targetEl s \<noteq> None \<or> arg = None"
  then show "initialize arg s = (Return Undefined, s)"
    by (auto simp: initialize_def split: option.splits)
next
  assume "targetEl s = None"
  then show "targetEl (snd (initialize (Some el) s)) = Some el"
    by (rule initialize_sets_target)
next
  assume r: "fst (destroy s) = Return v"
  show n: "targetEl (snd (destroy s)) = None"
    using destroy_Return [OF r] by simp
  show "targetEl (snd (initialize (Some el) (snd (destroy s)))) = Some el"
    using n by (rule initialize_sets_target)
qed

theorem initialize_guard_witness:
  "targetEl page_initialized = Some 1 \<and>
   initialize (Some 10) page_initialized = (Return Undefined, page_initialized) \<and>
   targetEl page = None \<and>
   initialize None page = (Return Undefined, page) \<and>
   targetEl (snd (initialize None page)) = None \<and>
   targetEl (snd (initialize (Some 1) page)) = Some 1 \<and>
   fst (destroy page_running) = Return Undefined \<and>
   targetEl (snd (destroy page_running)) = None \<and>
   targetEl (snd (initialize (Some 10) (snd (destroy page_running)))) = Some 10"
proof -
  have a: "targetEl page_initialized = Some 1"
    by (simp add: page_defs viewer_defs dom_defs Let_def)
  have b: "targetEl page = None" by (simp add: page_def)
  have c: "fst (destroy page_running) = Return Undefined"
    by (simp add: page_defs viewer_defs dom_defs Let_def)
  show ?thesis
    using initialize_guard [of page_initialized "Some 10" 10 Undefined]
      initialize_guard [of page None 1 Undefined]
      initialize_guard [of page_running "Some 10" 10 Undefined] a b c
    by simp
qed

text \<open>
  The target element of one Viewer is set more than once when \<^verbatim>\<open>destroy\<close> comes in
  between: \<^verbatim>\<open>initialize\<close> sets it to node 1, \<^verbatim>\<open>destroy\<close> unsets it, and a second
  \<^verbatim>\<open>initialize\<close> passes the guard, sets it to node 10 and attaches the canvas there,
  before it throws at the first assignment to the released controls.
\<close>

theorem target_set_twice_counterexample:
  "targetEl page = None \<and>
   targetEl page_initialized = Some 1 \<and>
   targetEl (snd (destroy page_running)) = None \<and>
   targetEl (snd (initialize (Some 10) (snd (destroy page_running)))) = Some 10 \<and>
   parentNode (snd (initialize (Some 10) (snd (destroy page_running)))) 100 = Some 10 \<and>
   fst (initialize (Some 10) (snd (destroy page_running))) = Throw TypeError"
  by (simp add: page_defs viewer_defs dom_defs Let_def)

section \<open>loop\<close>

text \<open>
  C3 (as amended). Every call \<open>loop t\<close> first requests the next frame (the request is the
  first call it makes, its handle is stored, and the request is pending afterwards) and
  records \<open>t\<close> as the previous timestamp. With no previous timestamp it then returns and
  has called neither \<^verbatim>\<open>update\<close> nor \<^verbatim>\<open>render\<close>. With previous timestamp \<open>t0\<close> and the
  controls present it updates the controls, calls \<^verbatim>\<open>update\<close> with \<open>t - t0\<close> and then
  \<^verbatim>\<open>render\<close>, in this order. With previous timestamp \<open>t0\<close> and the controls released
  by \<^verbatim>\<open>destroy\<close> it throws a TypeError after the request, and has called neither
  \<^verbatim>\<open>update\<close> nor \<^verbatim>\<open>render\<close>.
\<close>

theorem loop_frame:
  fixes s :: "'t::minus state"
  shows
  "take (Suc (length (calls s))) (calls (snd (loop t s))) =
     calls s @ [Window_requestAnimationFrame (Suc (frameCounter s))] \<and>
   frames (snd (loop t s)) = frames s @ [(Suc (frameCounter s), Cb_loop)] \<and>
   reqAnimationFrameHandle (snd (loop t s)) = Some (Suc (frameCounter s)) \<and>
   prevTime (snd (loop t s)) = Some t \<and>
   (prevTime s = None \<longrightarrow>
      fst (loop t s) = Return Undefined \<and>
      calls (snd (loop t s)) = calls s @ [Window_requestAnimationFrame (Suc (frameCounter s))]) \<and>
   (prevTime s = Some t0 \<and> orbitControls s \<noteq> None \<longrightarrow>
      fst (loop t s) = Return Undefined \<and>
      calls (snd (loop t s)) =
        calls s @ [Window_requestAnimationFrame (Suc (frameCounter s)),
                   Controls_update,
                   Viewer_update (t - t0), Controls_update,
                   Potree_updatePointClouds (pointClouds s),
                   Viewer_render, Renderer_clear, Renderer_render (scene s)]) \<and>
   (prevTime s = Some t0 \<and> orbitControls s = None \<longrightarrow>
      fst (loop t s) = Throw TypeError \<and>
      calls (snd (loop t s)) = calls s @ [Window_requestAnimationFrame (Suc (frameCounter s))])"
  by (cases "prevTime s"; cases "orbitControls s")
     (simp_all add: loop_def requestAnimationFrame_def called_def Let_def andThen_def
        controls_update_def update_def render_def)

theorem loop_frame_witness:
  "prevTime page_loaded = None \<and>
   fst (loop 16 page_loaded) = Return Undefined \<and>
   calls (snd (loop 16 page_loaded)) = calls page_loaded @ [Window_requestAnimationFrame 2] \<and>
   prevTime page_running = Some 16 \<and>
   orbitControls page_running \<noteq> None \<and>
   fst (loop 40 page_running) = Return Undefined \<and>
   calls (snd (loop 40 page_running)) =
     calls page_running @
       [Window_requestAnimationFrame 3, Controls_update, Viewer_update (40 - 16),
        Controls_update, Potree_updatePointClouds [7],
        Viewer_render, Renderer_clear, Renderer_render [7]]"
proof -
  have a: "prevTime page_loaded = None" "frameCounter page_loaded = 1"
    by (simp_all add: page_defs viewer_defs dom_defs Let_def)
  have b: "prevTime page_running = Some 16" "orbitControls page_running \<noteq> None"
    "frameCounter page_running = 2" "pointClouds page_running = [7]" "scene page_running = [7]"
    by (simp_all add: page_defs viewer_defs dom_defs Let_def)
  show ?thesis
    using loop_frame [of page_loaded 16 0] loop_frame [of page_running 40 16] a b
    by simp
qed

text \<open>
  The claim without the amendment fails on a Viewer destroyed before its first frame.
  \<^verbatim>\<open>initialize\<close> requests a frame and does not store the handle, so \<^verbatim>\<open>destroy\<close>
  cancels nothing; the frame runs \<^verbatim>\<open>loop\<close>, which records timestamp 16 and requests
  frame 2. In the next call of \<^verbatim>\<open>loop\<close> a previous timestamp is recorded, and the call
  throws at \<^verbatim>\<open>this.orbitControls.update()\<close>: neither \<^verbatim>\<open>update\<close> nor \<^verbatim>\<open>render\<close> is
  called.
\<close>

theorem loop_without_controls_counterexample:
  "fst (initialize (Some 1) page) = Return Undefined \<and>
   fst (destroy page_initialized) = Return Undefined \<and>
   (2, Cb_loop) \<in> set (frames page_destroyed_early) \<and>
   prevTime page_destroyed_early = Some 16 \<and>
   fst (loop 32 page_destroyed_early) = Throw TypeError \<and>
   Viewer_update (32 - 16) \<notin> set (calls (snd (loop 32 page_destroyed_early))) \<and>
   Viewer_render \<notin> set (calls (snd (loop 32 page_destroyed_early)))"
  by (simp add: page_defs viewer_defs dom_defs Let_def)

section \<open>The handlers of the controls\<close>

text \<open>
  C7 (as amended). For an opacity or a size event with value \<open>v\<close>: when
  \<^verbatim>\<open>Number(v)\<close> is not NaN and \<open>v\<close> is not the empty string, the string \<open>v\<close> itself,
  not the number it converts to, is assigned to the opacity (respectively the size) of the
  material of every point cloud on the list, and nothing else changes; otherwise the state
  is unchanged.
\<close>

theorem changePoints_raw_value:
  "changePointsOpacity v s =
     (Return Undefined,
      if \<not> Number_isNaN v \<and> v \<noteq> ''''
      then s\<lparr>material := (\<lambda>p. if p \<in> set (pointClouds s)
                               then (material s p)\<lparr>opacity := Str v\<rparr> else material s p)\<rparr>
      else s) \<and>
   changePointsSize v s =
     (Return Undefined,
      if \<not> Number_isNaN v \<and> v \<noteq> ''''
      then s\<lparr>material := (\<lambda>p. if p \<in> set (pointClouds s)
                               then (material s p)\<lparr>size' := Str v\<rparr> else material s p)\<rparr>
      else s)"
  by (simp add: changePointsOpacity_def changePointsSize_def forEach_set_opacity forEach_set_size)

theorem changePoints_raw_value_witness:
  "pointClouds page_loaded = [7] \<and>
   opacity (material page_loaded 7) = Num 1 \<and>
   opacity (material (snd (changePointsOpacity ''0.5'' page_loaded)) 7) = Str ''0.5'' \<and>
   size' (material (snd (changePointsSize ''0.5'' page_loaded)) 7) = Str ''0.5'' \<and>
   opacity (material (snd (changePointsOpacity ''0.5'' page_loaded)) 8) = Num 1 \<and>
   changePointsOpacity '''' page_loaded = (Return Undefined, page_loaded) \<and>
   changePointsOpacity ''abc'' page_loaded = (Return Undefined, page_loaded) \<and>
   changePointsSize '''' page_loaded = (Return Undefined, page_loaded) \<and>
   changePointsSize ''abc'' page_loaded = (Return Undefined, page_loaded)"
proof -
  have a: "pointClouds page_loaded = [7]" "material page_loaded 7 =
      \<lparr>pointColorType = RGB, shape = SQUARE, opacity = Num 1, size' = Num 1\<rparr>"
     "material page_loaded 8 =
      \<lparr>pointColorType = OtherColorType 1, shape = SQUARE, opacity = Num 1, size' = Num 1\<rparr>"
    by (simp_all add: page_defs viewer_defs dom_defs Let_def)
  show ?thesis
    using changePoints_raw_value [of "''0.5''" page_loaded]
      changePoints_raw_value [of "''''" page_loaded]
      changePoints_raw_value [of "''abc''" page_loaded]
      a Number_isNaN_examples
    by simp
qed

text \<open>
  With the value \<^verbatim>\<open>"0.5"\<close> the opacity and the size of the loaded point cloud are the
  string and not the number 0.5.
\<close>

theorem changePoints_number_counterexample:
  "\<not> Number_isNaN ''0.5'' \<and>
   pointClouds page_loaded = [7] \<and>
   opacity (material (snd (changePointsOpacity ''0.5'' page_loaded)) 7) \<noteq> Num 0.5 \<and>
   size' (material (snd (changePointsSize ''0.5'' page_loaded)) 7) \<noteq> Num 0.5"
proof -
  have a: "pointClouds page_loaded = [7]"
    by (simp add: page_defs viewer_defs dom_defs Let_def)
  show ?thesis
    using a Number_isNaN_examples
    by (simp add: changePointsOpacity_def changePointsSize_def forEach_def set_opacity_def
        set_size_def)
qed

text \<open>
  C8. The shape handler returns without error for every label. The label
  \<^verbatim>\<open>"Square"\<close> leaves every point cloud on the list with the square shape,
  \<^verbatim>\<open>"Circle"\<close> with the circle, \<^verbatim>\<open>"Paraboloid"\<close> with the paraboloid; any other
  label leaves the state unchanged. In every case the list is unchanged, the materials of
  handles not on the list are unchanged, and of a material nothing but the shape changes.
\<close>

theorem configPointsShape_labels:
  "fst (configPointsShape v s) = Return Undefined \<and>
   (v = ''Square'' \<longrightarrow>
      (\<forall>p \<in> set (pointClouds s). shape (material (snd (configPointsShape v s)) p) = SQUARE)) \<and>
   (v = ''Circle'' \<longrightarrow>
      (\<forall>p \<in> set (pointClouds s). shape (material (snd (configPointsShape v s)) p) = CIRCLE)) \<and>
   (v = ''Paraboloid'' \<longrightarrow>
      (\<forall>p \<in> set (pointClouds s). shape (material (snd (configPointsShape v s)) p) = PARABOLOID)) \<and>
   (v \<noteq> ''Square'' \<and> v \<noteq> ''Circle'' \<and> v \<noteq> ''Paraboloid'' \<longrightarrow> snd (configPointsShape v s) = s) \<and>
   pointClouds (snd (configPointsShape v s)) = pointClouds s \<and>
   (\<forall>p. p \<notin> set (pointClouds s) \<longrightarrow> material (snd (configPointsShape v s)) p = material s p) \<and>
   (\<forall>p. (material (snd (configPointsShape v s)) p)\<lparr>shape := SQUARE\<rparr> = (material s p)\<lparr>shape := SQUARE\<rparr>)"
  by (simp add: configPointsShape_def forEach_set_shape)

theorem configPointsShape_labels_witness:
  "pointClouds page_loaded = [7] \<and>
   shape (material (snd (configPointsShape ''Circle'' page_loaded)) 7) = CIRCLE \<and>
   shape (material (snd (configPointsShape ''Paraboloid'' page_loaded)) 7) = PARABOLOID \<and>
   shape (material (snd (configPointsShape ''Square''
            (snd (configPointsShape ''Circle'' page_loaded)))) 7) = SQUARE \<and>
   configPointsShape ''Hexagon'' page_loaded = (Return Undefined, page_loaded)"
proof -
  have a: "pointClouds page_loaded = [7]"
    by (simp add: page_defs viewer_defs dom_defs Let_def)
  have b: "pointClouds (snd (configPointsShape ''Circle'' page_loaded)) = [7]"
    using configPointsShape_labels [of "''Circle''" page_loaded] a by simp
  have c: "snd (configPointsShape ''Hexagon'' page_loaded) = page_loaded"
    "fst (configPointsShape ''Hexagon'' page_loaded) = Return Undefined"
    using configPointsShape_labels [of "''Hexagon''" page_loaded] by simp_all
  have d: "configPointsShape ''Hexagon'' page_loaded = (Return Undefined, page_loaded)"
    using c by (simp add: prod_eq_iff)
  show ?thesis
    using configPointsShape_labels [of "''Circle''" page_loaded]
      configPointsShape_labels [of "''Paraboloid''" page_loaded]
      configPointsShape_labels [of "''Square''" "snd (configPointsShape ''Circle'' page_loaded)"]
      a b d
    by simp
qed


end
